theory Spec2Isabelle
  imports Main "HOL-Library.Word"
begin

section \<open>Strings of the script\<close>

text \<open>
  A JavaScript string is a sequence of 16-bit code units; the glyphs of the check button
  (U+2610 and U+2714) and the white space that \<open>trim\<close> and \<open>\s\<close> recognise lie beyond
  ASCII, so a code unit is a \<open>16 word\<close>. \<open>js\<close> embeds an ASCII literal of the script.
\<close>

type_synonym jschar = "16 word"
type_synonym jsstring = "jschar list"

definition js :: "string \<Rightarrow> jsstring" where
  "js s = map of_char s"

text \<open>
  ECMAScript's \<open>WhiteSpace\<close> and \<open>LineTerminator\<close> productions. \<open>String.prototype.trim\<close>
  removes both at the two ends, and the class escape \<open>\s\<close> matches both.
\<close>

definition WhiteSpace :: "jschar \<Rightarrow> bool" where
  "WhiteSpace c =
     (c = 0x0009 \<or> c = 0x000B \<or> c = 0x000C \<or> c = 0xFEFF \<or> c = 0x0020 \<or> c = 0x00A0
      \<or> c = 0x1680 \<or> (0x2000 \<le> c \<and> c \<le> 0x200A) \<or> c = 0x202F \<or> c = 0x205F
      \<or> c = 0x3000)"

definition LineTerminator :: "jschar \<Rightarrow> bool" where
  "LineTerminator c = (c = 0x000A \<or> c = 0x000D \<or> c = 0x2028 \<or> c = 0x2029)"

definition class_s :: "jschar \<Rightarrow> bool" where
  "class_s c = (WhiteSpace c \<or> LineTerminator c)"

definition class_d :: "jschar \<Rightarrow> bool" where
  "class_d c = (0x0030 \<le> c \<and> c \<le> 0x0039)"

definition trim :: "jsstring \<Rightarrow> jsstring" where
  "trim s = rev (dropWhile class_s (rev (dropWhile class_s s)))"

section \<open>isValidPhoneNumber\<close>

text \<open>
  \<open>numberString.replace(/[\s\-\(\)]/g, '')\<close>: the pattern is one character class, so the
  global replace visits the code units from left to right and puts the replacement in the
  place of each one the class matches.
\<close>

definition class_separator :: "jschar \<Rightarrow> bool" where
  "class_separator c = (class_s c \<or> c = 0x002D \<or> c = 0x0028 \<or> c = 0x0029)"

fun replace_all_class :: "(jschar \<Rightarrow> bool) \<Rightarrow> jsstring \<Rightarrow> jsstring \<Rightarrow> jsstring" where
  "replace_all_class cls repl [] = []"
| "replace_all_class cls repl (c # cs) =
     (if cls c then repl else [c]) @ replace_all_class cls repl cs"

text \<open>
  \<open>/^\d{10}$/.test(cleanedNumber)\<close>: without the \<open>m\<close> flag \<open>^\<close> holds at index 0 only
  and \<open>$\<close> at the end of the input only. \<open>match_repeat cls n s\<close> consumes exactly \<open>n\<close>
  code units of the class from the front of \<open>s\<close> and yields the rest, or fails.
\<close>

fun match_repeat :: "(jschar \<Rightarrow> bool) \<Rightarrow> nat \<Rightarrow> jsstring \<Rightarrow> jsstring option" where
  "match_repeat cls n [] = (if n = 0 then Some [] else None)"
| "match_repeat cls n (c # cs) =
     (if n = 0 then Some (c # cs)
      else if cls c then match_repeat cls (n - 1) cs
      else None)"

definition test_anchored_repeat :: "(jschar \<Rightarrow> bool) \<Rightarrow> nat \<Rightarrow> jsstring \<Rightarrow> bool" where
  "test_anchored_repeat cls n s = (match_repeat cls n s = Some [])"

definition isValidPhoneNumber :: "jsstring \<Rightarrow> bool" where
  "isValidPhoneNumber numberString =
     (let cleanedNumber = replace_all_class class_separator [] numberString
      in test_anchored_repeat class_d 10 cleanedNumber)"

subsection \<open>The specification's wording\<close>

text \<open>
  The cleaned number of the specification: the string with every white-space, hyphen and
  parenthesis character removed; and its test, exactly ten decimal digits.
\<close>

definition cleaned_number :: "jsstring \<Rightarrow> jsstring" where
  "cleaned_number s =
     filter (\<lambda>c. \<not> class_s c \<and> c \<noteq> of_char CHR ''-'' \<and> c \<noteq> of_char CHR ''(''
                 \<and> c \<noteq> of_char CHR '')'') s"

definition exactly_ten_digits :: "jsstring \<Rightarrow> bool" where
  "exactly_ten_digits s = (length s = 10 \<and> list_all class_d s)"

section \<open>Rows and the page\<close>

text \<open>
  \<open>classList\<close> is a token list without duplicates: \<open>add\<close> appends a token that is not
  there yet, \<open>remove\<close> takes every occurrence away.
\<close>

definition classList_contains :: "jsstring list \<Rightarrow> jsstring \<Rightarrow> bool" where
  "classList_contains cl t = (t \<in> set cl)"

definition classList_add :: "jsstring list \<Rightarrow> jsstring \<Rightarrow> jsstring list" where
  "classList_add cl t = (if t \<in> set cl then cl else cl @ [t])"

definition classList_remove :: "jsstring list \<Rightarrow> jsstring \<Rightarrow> jsstring list" where
  "classList_remove cl t = removeAll t cl"

text \<open>
  A table row: the text and the \<open>data-label\<close> of the three text cells, the label of the
  fourth cell, the class list and text of the check button in it, and the inline
  \<open>style.opacity\<close> of the row, which reads as the empty string while it is not set.
\<close>

record table_row =
  name_text :: jsstring
  name_label :: jsstring
  number_text :: jsstring
  number_label :: jsstring
  area_text :: jsstring
  area_label :: jsstring
  done_label :: jsstring
  button_classList :: "jsstring list"
  button_text :: jsstring
  style_opacity :: jsstring

text \<open>
  The elements the script holds: the table body (its children are the rows), the values
  of the three inputs, the text of the counter, the class list of the limit message, and
  the add button's \<open>disabled\<close> flag and text.
\<close>

record page =
  tableBody :: "table_row list"
  nameInput :: jsstring
  numberInput :: jsstring
  areaInput :: jsstring
  rowCountSpan :: jsstring
  limitMessage :: "jsstring list"
  addRowButton_disabled :: bool
  addRowButton_text :: jsstring

definition MAX_ROWS :: nat where
  "MAX_ROWS = 160"

text \<open>The decimal text of a row count, as the assignment to \<open>textContent\<close> renders it.\<close>

fun decimal :: "nat \<Rightarrow> jsstring" where
  "decimal n =
     (if n < 10 then [0x0030 + of_nat n]
      else decimal (n div 10) @ [0x0030 + of_nat (n mod 10)])"

definition updateRowCount :: "page \<Rightarrow> page" where
  "updateRowCount p =
     (let currentRowCount = length (tableBody p);
          p1 = p\<lparr>rowCountSpan := decimal currentRowCount\<rparr>
      in if currentRowCount \<ge> MAX_ROWS
         then p1\<lparr>limitMessage := classList_add (limitMessage p1) (js ''limit-reached''),
                 addRowButton_disabled := True,
                 addRowButton_text := js ''Limit Reached''\<rparr>
         else p1\<lparr>limitMessage := classList_remove (limitMessage p1) (js ''limit-reached''),
                 addRowButton_disabled := False,
                 addRowButton_text := js ''Add Appointment''\<rparr>)"

definition createNewRow :: "jsstring \<Rightarrow> jsstring \<Rightarrow> jsstring \<Rightarrow> table_row" where
  "createNewRow name number area =
     \<lparr>name_text = name, name_label = js ''Doctor's Name'',
      number_text = number, number_label = js ''Doctor's Number'',
      area_text = area, area_label = js ''Area'',
      done_label = js ''Done'',
      button_classList = classList_add (classList_add [] (js ''check-button'')) (js ''unchecked''),
      button_text = [0x2610],
      style_opacity = []\<rparr>"

text \<open>
  \<open>toggleCheck\<close> on the row that holds the clicked button: \<open>event.target\<close> is the button
  and \<open>button.closest('tr')\<close> its row.
\<close>

definition toggleCheck :: "table_row \<Rightarrow> table_row" where
  "toggleCheck r =
     (if classList_contains (button_classList r) (js ''unchecked'')
      then r\<lparr>button_classList :=
                 classList_add (classList_remove (button_classList r) (js ''unchecked''))
                   (js ''checked''),
              button_text := [0x2714],
              style_opacity := js ''0.6''\<rparr>
      else r\<lparr>button_classList :=
                 classList_add (classList_remove (button_classList r) (js ''checked''))
                   (js ''unchecked''),
              button_text := [0x2610],
              style_opacity := js ''1''\<rparr>)"

text \<open>
  Modelled from the spec: the stylesheet of the page is not part of the script. A row
  whose inline opacity is not set renders fully opaque (1.0), the opacity the specification
  gives to an unchecked row; an inline opacity, once set, is what the row renders with.
\<close>

definition rendered_opacity :: "table_row \<Rightarrow> jsstring" where
  "rendered_opacity r = (if style_opacity r = [] then js ''1'' else style_opacity r)"

section \<open>handleAddRow\<close>

definition alert_fill_in :: jsstring where
  "alert_fill_in = js ''Please fill in all three fields to add an appointment.''"

definition alert_phone_format :: jsstring where
  "alert_phone_format =
     js ''The Doctor's Number must be a valid 10-digit number (dashes or spaces are allowed but only 10 digits total).''"

text \<open>
  The handler returns the message it passes to \<open>alert\<close>, if any, and the page it leaves.
  A string is falsy exactly when it is empty.
\<close>

definition handleAddRow :: "page \<Rightarrow> jsstring option \<times> page" where
  "handleAddRow p =
     (let name = trim (nameInput p);
          number = trim (numberInput p);
          area = trim (areaInput p)
      in if name = [] \<or> number = [] \<or> area = [] then (Some alert_fill_in, p)
         else if \<not> isValidPhoneNumber number then (Some alert_phone_format, p)
         else if length (tableBody p) < MAX_ROWS
         then (None,
               updateRowCount
                 (p\<lparr>tableBody := tableBody p @ [createNewRow name number area],
                    nameInput := [], numberInput := [], areaInput := []\<rparr>))
         else (None, p))"

section \<open>Listeners and events\<close>

datatype input_field = NameField | NumberField | AreaField

text \<open>
  The click listener of the add button is \<open>handleAddRow\<close> itself. \<open>updateRowCount\<close> sets
  the \<open>disabled\<close> flag of the button, and a click on a disabled button reaches no
  listener: it raises no notice and leaves the page. The three inputs share one keypress
  listener, which calls \<open>handleAddRow\<close> when the key is \<open>Enter\<close>, whatever the state of the
  button. Every check button has \<open>toggleCheck\<close> as its click listener, here the button of
  the row at index \<open>i\<close>; an index beyond the table names no button, and nothing happens.
\<close>

definition addRowButton_click :: "page \<Rightarrow> jsstring option \<times> page" where
  "addRowButton_click p = (if addRowButton_disabled p then (None, p) else handleAddRow p)"

definition input_keypress :: "input_field \<Rightarrow> jsstring \<Rightarrow> page \<Rightarrow> jsstring option \<times> page" where
  "input_keypress input key p = (if key = js ''Enter'' then handleAddRow p else (None, p))"

definition checkButton_click :: "nat \<Rightarrow> page \<Rightarrow> page" where
  "checkButton_click i p =
     (if i < length (tableBody p)
      then p\<lparr>tableBody := (tableBody p)[i := toggleCheck (tableBody p ! i)]\<rparr>
      else p)"

text \<open>
  What the user can do: edit an input, click the add button, press a key in an input,
  click the check button of a row. \<open>run\<close> delivers the events in order.
\<close>

datatype event =
    Edit input_field jsstring
  | ClickAdd
  | KeyPress input_field jsstring
  | ClickCheck nat

fun step :: "event \<Rightarrow> page \<Rightarrow> page" where
  "step (Edit NameField v) p = p\<lparr>nameInput := v\<rparr>"
| "step (Edit NumberField v) p = p\<lparr>numberInput := v\<rparr>"
| "step (Edit AreaField v) p = p\<lparr>areaInput := v\<rparr>"
| "step ClickAdd p = snd (addRowButton_click p)"
| "step (KeyPress input key) p = snd (input_keypress input key p)"
| "step (ClickCheck i) p = checkButton_click i p"

definition run :: "event list \<Rightarrow> page \<Rightarrow> page" where
  "run evs p = fold step evs p"

text \<open>
  A submission attempt: the user fills the three inputs and then clicks the add button
  (\<open>submission\<close>) or presses \<open>Enter\<close> in the last input (\<open>enter_submission\<close>). The input
  is valid when it passes the two validations of \<open>handleAddRow\<close>.
\<close>

definition submission :: "jsstring \<times> jsstring \<times> jsstring \<Rightarrow> event list" where
  "submission d =
     (case d of (name, number, area) \<Rightarrow>
        [Edit NameField name, Edit NumberField number, Edit AreaField area, ClickAdd])"

definition enter_submission :: "jsstring \<times> jsstring \<times> jsstring \<Rightarrow> event list" where
  "enter_submission d =
     (case d of (name, number, area) \<Rightarrow>
        [Edit NameField name, Edit NumberField number, Edit AreaField area,
         KeyPress AreaField (js ''Enter'')])"

definition valid_input :: "jsstring \<times> jsstring \<times> jsstring \<Rightarrow> bool" where
  "valid_input d =
     (case d of (name, number, area) \<Rightarrow>
        trim name \<noteq> [] \<and> trim number \<noteq> [] \<and> trim area \<noteq> []
        \<and> isValidPhoneNumber (trim number))"

text \<open>
  \<open>updateRowCount\<close> disables the add button at capacity only. The pages on which the
  button, if disabled, is so at capacity are the pages the script leaves once it has run
  \<open>updateRowCount\<close>.
\<close>

definition disabled_only_at_capacity :: "page \<Rightarrow> bool" where
  "disabled_only_at_capacity p =
     (addRowButton_disabled p \<longrightarrow> MAX_ROWS \<le> length (tableBody p))"

subsection \<open>Pages for the examples\<close>

definition blank_page :: page where
  "blank_page =
     \<lparr>tableBody = [], nameInput = [], numberInput = [], areaInput = [],
      rowCountSpan = js ''0'', limitMessage = [js ''limit-message''],
      addRowButton_disabled = False, addRowButton_text = js ''Add Appointment''\<rparr>"

definition filled_page :: page where
  "filled_page =
     blank_page\<lparr>nameInput := js ''Dr. Rao'', numberInput := js ''(123) 456-7890'',
                areaInput := js ''Salt Lake''\<rparr>"

definition full_page :: page where
  "full_page =
     filled_page\<lparr>tableBody :=
       replicate 160 (createNewRow (js ''Dr. Sen'') (js ''1234567890'') (js ''Howrah''))\<rparr>"

definition incomplete_page :: page where
  "incomplete_page =
     blank_page\<lparr>nameInput := js ''   '', numberInput := js ''12345'',
                areaInput := js ''Salt Lake''\<rparr>"

definition misdialled_page :: page where
  "misdialled_page = filled_page\<lparr>numberInput := js ''123-abc-7890''\<rparr>"

definition padded_page :: page where
  "padded_page = filled_page\<lparr>numberInput := js '' 123-456-7890''\<rparr>"


definition two_row_page :: page where
  "two_row_page =
     blank_page\<lparr>tableBody :=
       [createNewRow (js ''Dr. Rao'') (js ''(123) 456-7890'') (js ''Salt Lake''),
        toggleCheck (createNewRow (js ''Dr. Sen'') (js ''1234567890'') (js ''Howrah''))]\<rparr>"

section \<open>Evaluation of the examples\<close>

lemmas char_defs = js_def class_s_def WhiteSpace_def LineTerminator_def class_d_def

lemmas page_defs = blank_page_def filled_page_def full_page_def incomplete_page_def
  misdialled_page_def padded_page_def two_row_page_def

lemma trim_examples:
  "trim (js ''Dr. Rao'') = js ''Dr. Rao''"
  "trim (js ''Salt Lake'') = js ''Salt Lake''"
  "trim (js ''(123) 456-7890'') = js ''(123) 456-7890''"
  "trim (js '' 123-456-7890'') = js ''123-456-7890''"
  "trim (js ''123-abc-7890'') = js ''123-abc-7890''"
  "trim (js ''12345'') = js ''12345''"
  "trim (js ''   '') = []"
  "trim [] = []"
  by (simp_all add: trim_def char_defs)

section \<open>Properties of the phone-number check\<close>

lemma replace_all_class_empty:
  "replace_all_class cls [] s = filter (\<lambda>c. \<not> cls c) s"
  by (induction s) simp_all

lemma cleaned_number_eq:
  "replace_all_class class_separator [] s = cleaned_number s"
  unfolding replace_all_class_empty cleaned_number_def class_separator_def
  by (rule filter_cong) simp_all

lemma match_repeat_all:
  "match_repeat cls n s = Some [] \<longleftrightarrow> length s = n \<and> list_all cls s"
proof (induction s arbitrary: n)
  case Nil
  then show ?case by auto
next
  case (Cons c cs)
  show ?case
  proof (cases n)
    case 0
    then show ?thesis by simp
  next
    case (Suc m)
    then show ?thesis using Cons.IH [of m] by auto
  qed
qed

lemma isValidPhoneNumber_char:
  "isValidPhoneNumber s \<longleftrightarrow> exactly_ten_digits (cleaned_number s)"
  by (simp add: isValidPhoneNumber_def test_anchored_repeat_def cleaned_number_eq
      match_repeat_all exactly_ten_digits_def Let_def)

lemma valid_examples:
  "isValidPhoneNumber (js ''(123) 456-7890'')"
  "isValidPhoneNumber (js ''123-456-7890'')"
  "\<not> isValidPhoneNumber (js ''123-abc-7890'')"
  "\<not> isValidPhoneNumber (js ''12345'')"
  by (simp_all add: isValidPhoneNumber_char exactly_ten_digits_def cleaned_number_def char_defs)

text \<open>
  The handler trims the number before it checks it; the check does not see the difference,
  since what \<open>trim\<close> removes the check removes too.
\<close>

lemma filter_dropWhile_disjoint:
  "(\<And>x. Q x \<Longrightarrow> \<not> P x) \<Longrightarrow> filter P (dropWhile Q xs) = filter P xs"
  by (induction xs) auto

lemma cleaned_number_trim: "cleaned_number (trim s) = cleaned_number s"
proof -
  let ?P = "\<lambda>c. \<not> class_s c \<and> c \<noteq> of_char CHR ''-'' \<and> c \<noteq> of_char CHR ''(''
                 \<and> c \<noteq> of_char CHR '')''"
  have drop: "filter ?P (dropWhile class_s xs) = filter ?P xs" for xs
    by (rule filter_dropWhile_disjoint) simp
  have "filter ?P (trim s) = rev (filter ?P (dropWhile class_s (rev (dropWhile class_s s))))"
    by (simp add: trim_def rev_filter)
  also have "\<dots> = rev (filter ?P (rev (dropWhile class_s s)))"
    by (simp only: drop)
  also have "\<dots> = filter ?P (dropWhile class_s s)"
    by (simp add: rev_filter)
  also have "\<dots> = filter ?P s"
    by (rule drop)
  finally show ?thesis by (simp add: cleaned_number_def)
qed

lemma isValidPhoneNumber_trim: "isValidPhoneNumber (trim s) = isValidPhoneNumber s"
  by (simp add: isValidPhoneNumber_char cleaned_number_trim)

text \<open>
  C1. For every string \<open>s\<close>, \<open>isValidPhoneNumber s\<close> is true exactly when \<open>s\<close> without its
  white space, hyphens and parentheses consists of exactly ten decimal digits; the five
  examples of the specification evaluate as it says.
\<close>

theorem isValidPhoneNumber_iff_cleaned_ten_digits:
  "(\<forall>s. isValidPhoneNumber s \<longleftrightarrow> exactly_ten_digits (cleaned_number s))
   \<and> isValidPhoneNumber (js ''123-456-7890'') = True
   \<and> isValidPhoneNumber (js ''(123) 456-7890'') = True
   \<and> isValidPhoneNumber (js ''12345'') = False
   \<and> isValidPhoneNumber (js ''12345678901'') = False
   \<and> isValidPhoneNumber (js ''123-abc-7890'') = False"
proof -
  have e4: "\<not> isValidPhoneNumber (js ''12345678901'')"
    by (simp add: isValidPhoneNumber_char exactly_ten_digits_def cleaned_number_def char_defs)
  from isValidPhoneNumber_char valid_examples e4 show ?thesis by simp
qed

section \<open>The four paths of handleAddRow\<close>

lemma alerts_differ: "alert_fill_in \<noteq> alert_phone_format"
  by (simp add: alert_fill_in_def alert_phone_format_def js_def)

lemma updateRowCount_keeps [simp]:
  "tableBody (updateRowCount p) = tableBody p"
  "nameInput (updateRowCount p) = nameInput p"
  "numberInput (updateRowCount p) = numberInput p"
  "areaInput (updateRowCount p) = areaInput p"
  by (simp_all add: updateRowCount_def Let_def)

lemma handleAddRow_missing:
  "trim (nameInput p) = [] \<or> trim (numberInput p) = [] \<or> trim (areaInput p) = []
   \<Longrightarrow> handleAddRow p = (Some alert_fill_in, p)"
  by (auto simp: handleAddRow_def Let_def)

lemma handleAddRow_invalid:
  "trim (nameInput p) \<noteq> [] \<Longrightarrow> trim (numberInput p) \<noteq> [] \<Longrightarrow> trim (areaInput p) \<noteq> []
   \<Longrightarrow> \<not> isValidPhoneNumber (trim (numberInput p))
   \<Longrightarrow> handleAddRow p = (Some alert_phone_format, p)"
  by (simp add: handleAddRow_def Let_def)

lemma handleAddRow_full:
  "trim (nameInput p) \<noteq> [] \<Longrightarrow> trim (numberInput p) \<noteq> [] \<Longrightarrow> trim (areaInput p) \<noteq> []
   \<Longrightarrow> isValidPhoneNumber (trim (numberInput p)) \<Longrightarrow> MAX_ROWS \<le> length (tableBody p)
   \<Longrightarrow> handleAddRow p = (None, p)"
  by (simp add: handleAddRow_def Let_def)

lemma handleAddRow_added:
  "trim (nameInput p) \<noteq> [] \<Longrightarrow> trim (numberInput p) \<noteq> [] \<Longrightarrow> trim (areaInput p) \<noteq> []
   \<Longrightarrow> isValidPhoneNumber (trim (numberInput p)) \<Longrightarrow> length (tableBody p) < MAX_ROWS
   \<Longrightarrow> handleAddRow p =
        (None, updateRowCount
           (p\<lparr>tableBody := tableBody p @
                 [createNewRow (trim (nameInput p)) (trim (numberInput p)) (trim (areaInput p))],
              nameInput := [], numberInput := [], areaInput := []\<rparr>))"
  by (simp add: handleAddRow_def Let_def)

lemma handleAddRow_rows:
  "tableBody (snd (handleAddRow p)) =
     (if trim (nameInput p) \<noteq> [] \<and> trim (numberInput p) \<noteq> [] \<and> trim (areaInput p) \<noteq> []
         \<and> isValidPhoneNumber (trim (numberInput p)) \<and> length (tableBody p) < MAX_ROWS
      then tableBody p @
           [createNewRow (trim (nameInput p)) (trim (numberInput p)) (trim (areaInput p))]
      else tableBody p)"
  by (simp add: handleAddRow_def Let_def)

text \<open>
  C3. When the table holds fewer than 160 rows, the three drafts are non-empty after
  trimming and the trimmed number passes \<open>isValidPhoneNumber\<close>, \<open>handleAddRow\<close> raises no
  notice, appends one row, so that the row count grows by exactly 1, and leaves the three
  drafts empty.
\<close>

theorem handleAddRow_success:
  assumes "length (tableBody p) < MAX_ROWS"
    and "trim (nameInput p) \<noteq> []" and "trim (numberInput p) \<noteq> []"
    and "trim (areaInput p) \<noteq> []"
    and "isValidPhoneNumber (trim (numberInput p))"
  shows "fst (handleAddRow p) = None
     \<and> tableBody (snd (handleAddRow p)) =
         tableBody p @
           [createNewRow (trim (nameInput p)) (trim (numberInput p)) (trim (areaInput p))]
     \<and> length (tableBody (snd (handleAddRow p))) = length (tableBody p) + 1
     \<and> nameInput (snd (handleAddRow p)) = []
     \<and> numberInput (snd (handleAddRow p)) = []
     \<and> areaInput (snd (handleAddRow p)) = []"
  using assms by (simp add: handleAddRow_added)

theorem handleAddRow_success_witness:
  "length (tableBody filled_page) < MAX_ROWS
   \<and> trim (nameInput filled_page) \<noteq> [] \<and> trim (numberInput filled_page) \<noteq> []
   \<and> trim (areaInput filled_page) \<noteq> []
   \<and> isValidPhoneNumber (trim (numberInput filled_page))
   \<and> fst (handleAddRow filled_page) = None
   \<and> length (tableBody (snd (handleAddRow filled_page))) = 1
   \<and> nameInput (snd (handleAddRow filled_page)) = []
   \<and> numberInput (snd (handleAddRow filled_page)) = []
   \<and> areaInput (snd (handleAddRow filled_page)) = []"
proof -
  have h: "length (tableBody filled_page) < MAX_ROWS"
    "trim (nameInput filled_page) \<noteq> []" "trim (numberInput filled_page) \<noteq> []"
    "trim (areaInput filled_page) \<noteq> []"
    "isValidPhoneNumber (trim (numberInput filled_page))"
    by (simp_all add: page_defs MAX_ROWS_def trim_examples valid_examples) (simp_all add: js_def)
  from handleAddRow_success [OF h] h show ?thesis by (simp add: page_defs)
qed

text \<open>
  C4. When a trimmed field is empty the handler raises the fill-in notice, and when no field
  is empty but the trimmed number fails \<open>isValidPhoneNumber\<close> it raises the phone-format
  notice; either way it leaves the page as it was: the row count and the three drafts are
  unchanged.
\<close>

theorem handleAddRow_validation_failure:
  "((trim (nameInput p) = [] \<or> trim (numberInput p) = [] \<or> trim (areaInput p) = [])
      \<longrightarrow> handleAddRow p = (Some alert_fill_in, p))
   \<and> (trim (nameInput p) \<noteq> [] \<and> trim (numberInput p) \<noteq> [] \<and> trim (areaInput p) \<noteq> []
        \<and> \<not> isValidPhoneNumber (trim (numberInput p))
      \<longrightarrow> handleAddRow p = (Some alert_phone_format, p))
   \<and> (trim (nameInput p) = [] \<or> trim (numberInput p) = [] \<or> trim (areaInput p) = []
        \<or> \<not> isValidPhoneNumber (trim (numberInput p))
      \<longrightarrow> fst (handleAddRow p) \<noteq> None
          \<and> length (tableBody (snd (handleAddRow p))) = length (tableBody p)
          \<and> nameInput (snd (handleAddRow p)) = nameInput p
          \<and> numberInput (snd (handleAddRow p)) = numberInput p
          \<and> areaInput (snd (handleAddRow p)) = areaInput p
          \<and> snd (handleAddRow p) = p)"
proof (intro conjI impI)
  assume "trim (nameInput p) = [] \<or> trim (numberInput p) = [] \<or> trim (areaInput p) = []"
  then show "handleAddRow p = (Some alert_fill_in, p)"
    by (rule handleAddRow_missing)
next
  assume "trim (nameInput p) \<noteq> [] \<and> trim (numberInput p) \<noteq> [] \<and> trim (areaInput p) \<noteq> []
        \<and> \<not> isValidPhoneNumber (trim (numberInput p))"
  then show "handleAddRow p = (Some alert_phone_format, p)"
    by (simp add: handleAddRow_invalid)
next
  assume fails: "trim (nameInput p) = [] \<or> trim (numberInput p) = [] \<or> trim (areaInput p) = []
        \<or> \<not> isValidPhoneNumber (trim (numberInput p))"
  have "handleAddRow p = (Some alert_fill_in, p) \<or> handleAddRow p = (Some alert_phone_format, p)"
  proof (cases "trim (nameInput p) = [] \<or> trim (numberInput p) = [] \<or> trim (areaInput p) = []")
    case True
    then show ?thesis by (simp add: handleAddRow_missing)
  next
    case False
    with fails show ?thesis by (simp add: handleAddRow_invalid)
  qed
  then show "fst (handleAddRow p) \<noteq> None"
    and "length (tableBody (snd (handleAddRow p))) = length (tableBody p)"
    and "nameInput (snd (handleAddRow p)) = nameInput p"
    and "numberInput (snd (handleAddRow p)) = numberInput p"
    and "areaInput (snd (handleAddRow p)) = areaInput p"
    and "snd (handleAddRow p) = p"
    by auto
qed

theorem handleAddRow_validation_failure_witness:
  "trim (nameInput incomplete_page) = []
   \<and> handleAddRow incomplete_page = (Some alert_fill_in, incomplete_page)
   \<and> trim (nameInput misdialled_page) \<noteq> [] \<and> trim (numberInput misdialled_page) \<noteq> []
   \<and> trim (areaInput misdialled_page) \<noteq> []
   \<and> \<not> isValidPhoneNumber (trim (numberInput misdialled_page))
   \<and> handleAddRow misdialled_page = (Some alert_phone_format, misdialled_page)
   \<and> numberInput (snd (handleAddRow misdialled_page)) = js ''123-abc-7890''"
proof -
  have a: "trim (nameInput incomplete_page) = []"
    by (simp add: page_defs trim_examples)
  have b: "trim (nameInput misdialled_page) \<noteq> []" "trim (numberInput misdialled_page) \<noteq> []"
    "trim (areaInput misdialled_page) \<noteq> []"
    "\<not> isValidPhoneNumber (trim (numberInput misdialled_page))"
    by (simp_all add: page_defs trim_examples valid_examples) (simp_all add: js_def)
  have c: "numberInput misdialled_page = js ''123-abc-7890''"
    by (simp add: page_defs)
  from a b c handleAddRow_validation_failure [of incomplete_page]
    handleAddRow_validation_failure [of misdialled_page]
  show ?thesis by simp
qed

text \<open>
  C6. The checks run in the order missing field, phone number, capacity. When a trimmed
  field is empty and the number is invalid too, the notice is the fill-in one and not the
  phone-format one; the phone-format notice means that no field was empty; an outcome
  without a notice, which is what the capacity check leads to, means that both validations
  passed; and when a validation fails the outcome is the same whatever rows the table holds.
\<close>

theorem handleAddRow_checks_in_order:
  "((trim (nameInput p) = [] \<or> trim (numberInput p) = [] \<or> trim (areaInput p) = [])
      \<and> \<not> isValidPhoneNumber (trim (numberInput p))
      \<longrightarrow> fst (handleAddRow p) = Some alert_fill_in
          \<and> fst (handleAddRow p) \<noteq> Some alert_phone_format)
   \<and> (fst (handleAddRow p) = Some alert_phone_format
      \<longrightarrow> trim (nameInput p) \<noteq> [] \<and> trim (numberInput p) \<noteq> [] \<and> trim (areaInput p) \<noteq> []
          \<and> \<not> isValidPhoneNumber (trim (numberInput p)))
   \<and> (fst (handleAddRow p) = None
      \<longrightarrow> trim (nameInput p) \<noteq> [] \<and> trim (numberInput p) \<noteq> [] \<and> trim (areaInput p) \<noteq> []
          \<and> isValidPhoneNumber (trim (numberInput p)))
   \<and> (fst (handleAddRow p) \<noteq> None
      \<longrightarrow> handleAddRow (p\<lparr>tableBody := rows\<rparr>) = (fst (handleAddRow p), p\<lparr>tableBody := rows\<rparr>))"
proof -
  let ?missing = "trim (nameInput p) = [] \<or> trim (numberInput p) = [] \<or> trim (areaInput p) = []"
  let ?valid = "isValidPhoneNumber (trim (numberInput p))"
  have first: "?missing \<Longrightarrow> fst (handleAddRow p) = Some alert_fill_in"
    by (simp add: handleAddRow_missing)
  have second: "\<not> ?missing \<Longrightarrow> \<not> ?valid \<Longrightarrow> fst (handleAddRow p) = Some alert_phone_format"
    by (simp add: handleAddRow_invalid)
  have third: "\<not> ?missing \<Longrightarrow> ?valid \<Longrightarrow> fst (handleAddRow p) = None"
    by (simp add: handleAddRow_def Let_def)
  have rows: "fst (handleAddRow p) \<noteq> None \<Longrightarrow>
      handleAddRow (p\<lparr>tableBody := rows\<rparr>) = (fst (handleAddRow p), p\<lparr>tableBody := rows\<rparr>)"
    by (auto simp: handleAddRow_def Let_def split: if_splits)
  from first second third rows alerts_differ show ?thesis
    by (cases ?missing; cases ?valid) auto
qed

theorem handleAddRow_checks_in_order_witness:
  "(trim (nameInput incomplete_page) = [] \<and> \<not> isValidPhoneNumber (trim (numberInput incomplete_page)))
   \<and> fst (handleAddRow incomplete_page) = Some alert_fill_in
   \<and> fst (handleAddRow incomplete_page) \<noteq> Some alert_phone_format
   \<and> fst (handleAddRow (incomplete_page\<lparr>tableBody := tableBody full_page\<rparr>)) = Some alert_fill_in"
proof -
  have a: "trim (nameInput incomplete_page) = []"
    and b: "\<not> isValidPhoneNumber (trim (numberInput incomplete_page))"
    by (simp_all add: page_defs trim_examples valid_examples)
  note order = handleAddRow_checks_in_order [of incomplete_page "tableBody full_page"]
  from order a b have first: "fst (handleAddRow incomplete_page) = Some alert_fill_in
      \<and> fst (handleAddRow incomplete_page) \<noteq> Some alert_phone_format"
    by blast
  then have "fst (handleAddRow incomplete_page) \<noteq> None"
    by simp
  with order have "handleAddRow (incomplete_page\<lparr>tableBody := tableBody full_page\<rparr>) =
      (fst (handleAddRow incomplete_page), incomplete_page\<lparr>tableBody := tableBody full_page\<rparr>)"
    by blast
  with first have "fst (handleAddRow (incomplete_page\<lparr>tableBody := tableBody full_page\<rparr>)) =
      Some alert_fill_in"
    by simp
  with a b first show ?thesis by blast
qed

text \<open>
  C10. At or above 160 rows, with input that passes both validations, \<open>handleAddRow\<close>
  returns the page as it found it and raises no notice: no row is appended, the drafts keep
  their values, and the counter, the limit message and the add button are not refreshed.
  On \<open>full_page\<close>, whose counter and button are out of date, \<open>updateRowCount\<close> would
  have changed both.
\<close>

theorem handleAddRow_at_capacity_no_effect:
  assumes "MAX_ROWS \<le> length (tableBody p)"
    and "trim (nameInput p) \<noteq> []" and "trim (numberInput p) \<noteq> []"
    and "trim (areaInput p) \<noteq> []"
    and "isValidPhoneNumber (trim (numberInput p))"
  shows "handleAddRow p = (None, p)
     \<and> fst (handleAddRow p) = None
     \<and> tableBody (snd (handleAddRow p)) = tableBody p
     \<and> nameInput (snd (handleAddRow p)) = nameInput p
     \<and> numberInput (snd (handleAddRow p)) = numberInput p
     \<and> areaInput (snd (handleAddRow p)) = areaInput p
     \<and> rowCountSpan (snd (handleAddRow p)) = rowCountSpan p
     \<and> limitMessage (snd (handleAddRow p)) = limitMessage p
     \<and> addRowButton_disabled (snd (handleAddRow p)) = addRowButton_disabled p
     \<and> addRowButton_text (snd (handleAddRow p)) = addRowButton_text p"
  using assms by (simp add: handleAddRow_full)

theorem handleAddRow_at_capacity_no_effect_witness:
  "MAX_ROWS \<le> length (tableBody full_page)
   \<and> trim (nameInput full_page) \<noteq> [] \<and> trim (numberInput full_page) \<noteq> []
   \<and> trim (areaInput full_page) \<noteq> []
   \<and> isValidPhoneNumber (trim (numberInput full_page))
   \<and> handleAddRow full_page = (None, full_page)
   \<and> rowCountSpan (snd (handleAddRow full_page)) = js ''0''
   \<and> rowCountSpan (updateRowCount full_page) = js ''160''
   \<and> addRowButton_disabled (snd (handleAddRow full_page)) = False
   \<and> addRowButton_disabled (updateRowCount full_page) = True"
proof -
  have h: "MAX_ROWS \<le> length (tableBody full_page)"
    "trim (nameInput full_page) \<noteq> []" "trim (numberInput full_page) \<noteq> []"
    "trim (areaInput full_page) \<noteq> []"
    "isValidPhoneNumber (trim (numberInput full_page))"
    by (simp_all add: page_defs MAX_ROWS_def trim_examples valid_examples) (simp_all add: js_def)
  have stale: "rowCountSpan full_page = js ''0''" "addRowButton_disabled full_page = False"
    by (simp_all add: page_defs)
  have fresh: "rowCountSpan (updateRowCount full_page) = js ''160''"
    "addRowButton_disabled (updateRowCount full_page) = True"
    by (simp_all add: updateRowCount_def Let_def MAX_ROWS_def page_defs js_def)
  from handleAddRow_at_capacity_no_effect [OF h] h stale fresh show ?thesis by simp
qed

section \<open>The text stored in the number cell\<close>

lemma dropWhile_hd_id: "s \<noteq> [] \<Longrightarrow> \<not> P (hd s) \<Longrightarrow> dropWhile P s = s"
  by (cases s) simp_all

lemma trim_id:
  assumes "s \<noteq> []" and "\<not> class_s (hd s)" and "\<not> class_s (last s)"
  shows "trim s = s"
proof -
  have "dropWhile class_s s = s"
    using assms by (simp add: dropWhile_hd_id)
  moreover have "dropWhile class_s (rev s) = rev s"
    using assms by (simp add: dropWhile_hd_id hd_rev)
  ultimately show ?thesis by (simp add: trim_def)
qed

lemma last_dropWhile_nonempty:
  "dropWhile P xs \<noteq> [] \<Longrightarrow> last (dropWhile P xs) = last xs"
  by (induction xs) auto

lemma trim_ends:
  assumes "trim s \<noteq> []"
  shows "\<not> class_s (hd (trim s))" and "\<not> class_s (last (trim s))"
proof -
  let ?a = "dropWhile class_s s"
  let ?b = "dropWhile class_s (rev ?a)"
  from assms have b: "?b \<noteq> []"
    by (simp add: trim_def)
  have a: "?a \<noteq> []"
  proof
    assume empty: "?a = []"
    have "?b = []"
      by (simp add: empty)
    with b show False
      by simp
  qed
  have "hd (trim s) = last ?b"
    using b by (simp add: trim_def hd_rev)
  also have "\<dots> = last (rev ?a)"
    using b by (rule last_dropWhile_nonempty)
  also have "\<dots> = hd ?a"
    using a by (simp add: last_rev)
  finally have "hd (trim s) = hd ?a" .
  moreover have "\<not> class_s (hd ?a)"
    using a by (rule hd_dropWhile)
  ultimately show "\<not> class_s (hd (trim s))"
    by simp
  have "last (trim s) = hd ?b"
    using b by (simp add: trim_def last_rev)
  moreover have "\<not> class_s (hd ?b)"
    using b by (rule hd_dropWhile)
  ultimately show "\<not> class_s (last (trim s))"
    by simp
qed

lemma trim_affixes:
  "\<exists>pre post. s = pre @ trim s @ post \<and> list_all class_s pre \<and> list_all class_s post"
proof -
  let ?a = "dropWhile class_s s"
  let ?pre = "takeWhile class_s s"
  let ?post = "rev (takeWhile class_s (rev ?a))"
  have "rev (rev ?a) = rev (takeWhile class_s (rev ?a) @ dropWhile class_s (rev ?a))"
    by (simp only: takeWhile_dropWhile_id)
  then have "?a = rev (dropWhile class_s (rev ?a)) @ ?post"
    by (simp only: rev_rev_ident rev_append)
  then have "?a = trim s @ ?post"
    by (simp only: trim_def)
  moreover have "s = ?pre @ ?a"
    by simp
  ultimately have "s = ?pre @ trim s @ ?post"
    by simp
  moreover have "list_all class_s ?pre" and "list_all class_s ?post"
    by (auto simp: list_all_iff dest: set_takeWhileD)
  ultimately show ?thesis
    by blast
qed

text \<open>
  C8, as the code has it. A submission that adds a row stores the typed number without
  the white space at its two ends and otherwise as typed: the typed text is the stored text
  between a prefix and a suffix of white space only, and the stored text neither starts nor
  ends with white space. The stored text is the typed text exactly when the typed text
  neither starts nor ends with white space.
\<close>

theorem stored_number_is_trimmed_typed_text:
  assumes "tableBody (snd (handleAddRow p)) \<noteq> tableBody p"
  shows "tableBody (snd (handleAddRow p)) =
       tableBody p @
         [createNewRow (trim (nameInput p)) (trim (numberInput p)) (trim (areaInput p))]
     \<and> number_text (last (tableBody (snd (handleAddRow p)))) = trim (numberInput p)
     \<and> (\<exists>pre post.
           numberInput p = pre @ number_text (last (tableBody (snd (handleAddRow p)))) @ post
           \<and> list_all class_s pre \<and> list_all class_s post)
     \<and> number_text (last (tableBody (snd (handleAddRow p)))) \<noteq> []
     \<and> \<not> class_s (hd (number_text (last (tableBody (snd (handleAddRow p))))))
     \<and> \<not> class_s (last (number_text (last (tableBody (snd (handleAddRow p))))))
     \<and> (number_text (last (tableBody (snd (handleAddRow p)))) = numberInput p
          \<longleftrightarrow> numberInput p \<noteq> [] \<and> \<not> class_s (hd (numberInput p))
              \<and> \<not> class_s (last (numberInput p)))"
proof -
  let ?stored = "number_text (last (tableBody (snd (handleAddRow p))))"
  from assms have rows: "tableBody (snd (handleAddRow p)) =
       tableBody p @
         [createNewRow (trim (nameInput p)) (trim (numberInput p)) (trim (areaInput p))]"
    and nonempty: "trim (numberInput p) \<noteq> []"
    by (simp_all add: handleAddRow_rows split: if_splits)
  from rows have stored: "?stored = trim (numberInput p)"
    by (simp add: createNewRow_def)
  have affixes: "\<exists>pre post. numberInput p = pre @ ?stored @ post
      \<and> list_all class_s pre \<and> list_all class_s post"
    unfolding stored by (rule trim_affixes)
  have ends: "?stored \<noteq> []" "\<not> class_s (hd ?stored)" "\<not> class_s (last ?stored)"
    unfolding stored using nonempty by (simp_all add: trim_ends)
  have same: "?stored = numberInput p \<longleftrightarrow>
      numberInput p \<noteq> [] \<and> \<not> class_s (hd (numberInput p)) \<and> \<not> class_s (last (numberInput p))"
  proof
    assume "?stored = numberInput p"
    with ends show "numberInput p \<noteq> [] \<and> \<not> class_s (hd (numberInput p))
        \<and> \<not> class_s (last (numberInput p))"
      by simp
  next
    assume "numberInput p \<noteq> [] \<and> \<not> class_s (hd (numberInput p))
        \<and> \<not> class_s (last (numberInput p))"
    then show "?stored = numberInput p"
      unfolding stored by (simp add: trim_id)
  qed
  from rows stored affixes ends same show ?thesis
    by blast
qed

theorem stored_number_is_trimmed_typed_text_witness:
  "tableBody (snd (handleAddRow padded_page)) \<noteq> tableBody padded_page
   \<and> numberInput padded_page = js '' 123-456-7890''
   \<and> number_text (last (tableBody (snd (handleAddRow padded_page)))) = js ''123-456-7890''
   \<and> tableBody (snd (handleAddRow filled_page)) \<noteq> tableBody filled_page
   \<and> numberInput filled_page = js ''(123) 456-7890''
   \<and> number_text (last (tableBody (snd (handleAddRow filled_page)))) = js ''(123) 456-7890''"
proof -
  have padded: "trim (nameInput padded_page) \<noteq> []"
    "trim (numberInput padded_page) = js ''123-456-7890''"
    "trim (areaInput padded_page) \<noteq> []"
    "numberInput padded_page = js '' 123-456-7890''"
    "length (tableBody padded_page) < MAX_ROWS"
    by (simp_all add: page_defs trim_examples MAX_ROWS_def) (simp_all add: js_def)
  have filled: "trim (nameInput filled_page) \<noteq> []"
    "trim (numberInput filled_page) = js ''(123) 456-7890''"
    "trim (areaInput filled_page) \<noteq> []"
    "numberInput filled_page = js ''(123) 456-7890''"
    "length (tableBody filled_page) < MAX_ROWS"
    by (simp_all add: page_defs trim_examples MAX_ROWS_def) (simp_all add: js_def)
  have nonempty: "js ''123-456-7890'' \<noteq> []" "js ''(123) 456-7890'' \<noteq> []"
    by (simp_all add: js_def)
  have grew1: "tableBody (snd (handleAddRow padded_page)) \<noteq> tableBody padded_page"
    using nonempty by (simp add: handleAddRow_rows padded trim_examples valid_examples)
  have grew2: "tableBody (snd (handleAddRow filled_page)) \<noteq> tableBody filled_page"
    using nonempty by (simp add: handleAddRow_rows filled trim_examples valid_examples)
  from stored_number_is_trimmed_typed_text [OF grew1]
  have "number_text (last (tableBody (snd (handleAddRow padded_page)))) =
      trim (numberInput padded_page)"
    by blast
  with padded have stored1:
    "number_text (last (tableBody (snd (handleAddRow padded_page)))) = js ''123-456-7890''"
    by simp
  from stored_number_is_trimmed_typed_text [OF grew2]
  have "number_text (last (tableBody (snd (handleAddRow filled_page)))) =
      trim (numberInput filled_page)"
    by blast
  with filled have stored2:
    "number_text (last (tableBody (snd (handleAddRow filled_page)))) = js ''(123) 456-7890''"
    by simp
  from grew1 grew2 padded(4) filled(4) stored1 stored2 show ?thesis
    by blast
qed

text \<open>
  The stored text is not always the typed text: a number typed with a leading space is
  stored without it.
\<close>

theorem stored_number_differs_from_typed_counterexample:
  "tableBody (snd (handleAddRow padded_page)) \<noteq> tableBody padded_page
   \<and> number_text (last (tableBody (snd (handleAddRow padded_page)))) \<noteq> numberInput padded_page"
proof -
  have drafts: "trim (nameInput padded_page) = js ''Dr. Rao''"
    "trim (numberInput padded_page) = js ''123-456-7890''"
    "trim (areaInput padded_page) = js ''Salt Lake''"
    "numberInput padded_page = js '' 123-456-7890''"
    "length (tableBody padded_page) < MAX_ROWS"
    by (simp_all add: page_defs trim_examples MAX_ROWS_def)
  have nonempty: "js ''Dr. Rao'' \<noteq> []" "js ''123-456-7890'' \<noteq> []" "js ''Salt Lake'' \<noteq> []"
    and differ: "js ''123-456-7890'' \<noteq> js '' 123-456-7890''"
    by (simp_all add: js_def)
  show ?thesis
    using nonempty differ
    by (simp add: handleAddRow_rows drafts trim_examples valid_examples createNewRow_def)
qed

section \<open>The check button\<close>

lemma class_tokens_differ: "js ''unchecked'' \<noteq> js ''checked''"
  by (simp add: js_def)

lemma toggleCheck_cells:
  "name_text (toggleCheck r) = name_text r"
  "name_label (toggleCheck r) = name_label r"
  "number_text (toggleCheck r) = number_text r"
  "number_label (toggleCheck r) = number_label r"
  "area_text (toggleCheck r) = area_text r"
  "area_label (toggleCheck r) = area_label r"
  "done_label (toggleCheck r) = done_label r"
  by (simp_all add: toggleCheck_def)

lemma toggleCheck_flips:
  "classList_contains (button_classList (toggleCheck r)) (js ''unchecked'')
   \<longleftrightarrow> \<not> classList_contains (button_classList r) (js ''unchecked'')"
  using class_tokens_differ
  by (simp add: toggleCheck_def classList_contains_def classList_add_def classList_remove_def)

lemma fresh_classList:
  "button_classList (createNewRow name number area) = [js ''check-button'', js ''unchecked'']"
  by (simp add: createNewRow_def classList_add_def js_def)

lemma toggleCheck_fresh:
  "toggleCheck (createNewRow name number area) =
     (createNewRow name number area)
       \<lparr>button_classList := [js ''check-button'', js ''checked''],
        button_text := [0x2714], style_opacity := js ''0.6''\<rparr>"
  by (simp add: toggleCheck_def fresh_classList classList_contains_def classList_add_def
      classList_remove_def) (simp add: js_def)

lemma toggleCheck_twice_fresh:
  "toggleCheck (toggleCheck (createNewRow name number area)) =
     (createNewRow name number area)\<lparr>style_opacity := js ''1''\<rparr>"
proof -
  have "toggleCheck (toggleCheck (createNewRow name number area)) =
      (createNewRow name number area)
        \<lparr>button_classList := [js ''check-button'', js ''unchecked''],
         button_text := [0x2610], style_opacity := js ''1''\<rparr>"
    by (simp add: toggleCheck_fresh)
      (simp add: toggleCheck_def classList_contains_def classList_add_def
        classList_remove_def js_def)
  also have "\<dots> = (createNewRow name number area)\<lparr>style_opacity := js ''1''\<rparr>"
    by (simp add: createNewRow_def classList_add_def js_def)
  finally show ?thesis .
qed

lemma toggleCheck_fresh_classes:
  "classList_contains (button_classList (createNewRow name number area)) (js ''unchecked'')"
  "\<not> classList_contains (button_classList (createNewRow name number area)) (js ''checked'')"
  "classList_contains (button_classList (toggleCheck (createNewRow name number area)))
     (js ''checked'')"
  "\<not> classList_contains (button_classList (toggleCheck (createNewRow name number area)))
     (js ''unchecked'')"
  by (simp_all add: toggleCheck_fresh fresh_classList classList_contains_def)
    (simp_all add: js_def)

text \<open>
  C5. A fresh row is unchecked, shows the glyph U+2610 and renders fully opaque. The first
  toggle makes it checked, with the glyph U+2714 and the opacity 0.6; the second restores
  what the first changed: the class list and the glyph of the button are those of the fresh
  row again, and so is the opacity the row renders with. The cells and labels stay as
  created throughout: the row after two toggles is the fresh row with the fully opaque
  value written to its inline style.
\<close>

theorem toggleCheck_twice_restores_fresh_row:
  "classList_contains (button_classList (createNewRow name number area)) (js ''unchecked'')
   \<and> button_text (createNewRow name number area) = [0x2610]
   \<and> rendered_opacity (createNewRow name number area) = js ''1''
   \<and> classList_contains (button_classList (toggleCheck (createNewRow name number area)))
        (js ''checked'')
   \<and> \<not> classList_contains (button_classList (toggleCheck (createNewRow name number area)))
        (js ''unchecked'')
   \<and> button_text (toggleCheck (createNewRow name number area)) = [0x2714]
   \<and> rendered_opacity (toggleCheck (createNewRow name number area)) = js ''0.6''
   \<and> button_classList (toggleCheck (toggleCheck (createNewRow name number area))) =
       button_classList (createNewRow name number area)
   \<and> button_text (toggleCheck (toggleCheck (createNewRow name number area))) =
       button_text (createNewRow name number area)
   \<and> rendered_opacity (toggleCheck (toggleCheck (createNewRow name number area))) =
       rendered_opacity (createNewRow name number area)
   \<and> toggleCheck (toggleCheck (createNewRow name number area)) =
       (createNewRow name number area)\<lparr>style_opacity := js ''1''\<rparr>"
proof -
  let ?r = "createNewRow name number area"
  have twice: "toggleCheck (toggleCheck ?r) = ?r\<lparr>style_opacity := js ''1''\<rparr>"
    by (rule toggleCheck_twice_fresh)
  have fresh: "button_text ?r = [0x2610]" "rendered_opacity ?r = js ''1''"
    by (simp_all add: createNewRow_def rendered_opacity_def)
  have once: "button_text (toggleCheck ?r) = [0x2714]"
    "rendered_opacity (toggleCheck ?r) = js ''0.6''"
    by (simp_all add: toggleCheck_fresh rendered_opacity_def) (simp add: js_def)
  have restored: "button_classList (toggleCheck (toggleCheck ?r)) = button_classList ?r"
    "button_text (toggleCheck (toggleCheck ?r)) = button_text ?r"
    by (simp_all add: twice)
  have opaque: "rendered_opacity (toggleCheck (toggleCheck ?r)) = rendered_opacity ?r"
    by (simp add: twice fresh) (simp add: rendered_opacity_def js_def)
  from toggleCheck_fresh_classes [of name number area] fresh once restored opaque twice
  show ?thesis by blast
qed

lemma checkButton_click_fields:
  "nameInput (checkButton_click i p) = nameInput p"
  "numberInput (checkButton_click i p) = numberInput p"
  "areaInput (checkButton_click i p) = areaInput p"
  "rowCountSpan (checkButton_click i p) = rowCountSpan p"
  "limitMessage (checkButton_click i p) = limitMessage p"
  "addRowButton_disabled (checkButton_click i p) = addRowButton_disabled p"
  "addRowButton_text (checkButton_click i p) = addRowButton_text p"
  "length (tableBody (checkButton_click i p)) = length (tableBody p)"
  by (simp_all add: checkButton_click_def)

lemma checkButton_click_other:
  "j \<noteq> i \<Longrightarrow> tableBody (checkButton_click i p) ! j = tableBody p ! j"
  by (simp add: checkButton_click_def)

lemma checkButton_click_target:
  "i < length (tableBody p) \<Longrightarrow>
   tableBody (checkButton_click i p) ! i = toggleCheck (tableBody p ! i)"
  by (simp add: checkButton_click_def)

lemma toggleCheck_unchecked:
  assumes "classList_contains (button_classList r) (js ''unchecked'')"
  shows "button_text (toggleCheck r) = [0x2714]"
    and "style_opacity (toggleCheck r) = js ''0.6''"
    and "classList_contains (button_classList (toggleCheck r)) (js ''checked'')"
    and "\<not> classList_contains (button_classList (toggleCheck r)) (js ''unchecked'')"
  using assms class_tokens_differ
  by (simp_all add: toggleCheck_def classList_contains_def classList_add_def
      classList_remove_def)

lemma toggleCheck_not_unchecked:
  assumes "\<not> classList_contains (button_classList r) (js ''unchecked'')"
  shows "button_text (toggleCheck r) = [0x2610]"
    and "style_opacity (toggleCheck r) = js ''1''"
    and "classList_contains (button_classList (toggleCheck r)) (js ''unchecked'')"
    and "\<not> classList_contains (button_classList (toggleCheck r)) (js ''checked'')"
  using assms class_tokens_differ
  by (simp_all add: toggleCheck_def classList_contains_def classList_add_def
      classList_remove_def)

lemma toggleCheck_other_tokens:
  "t \<noteq> js ''unchecked'' \<Longrightarrow> t \<noteq> js ''checked'' \<Longrightarrow>
   classList_contains (button_classList (toggleCheck r)) t
     \<longleftrightarrow> classList_contains (button_classList r) t"
  by (simp add: toggleCheck_def classList_contains_def classList_add_def classList_remove_def)

text \<open>
  C7. A click on the check button of row \<open>i\<close> keeps the number of rows, every other row,
  the three drafts, the counter, the limit message and the add button. Row \<open>i\<close> becomes its
  \<open>toggleCheck\<close>: an unchecked row becomes checked, with the glyph U+2714 and the opacity
  0.6, and any other row becomes unchecked, with the glyph U+2610 and the opacity 1; the
  other class tokens of the button and the cells and labels of the row are unchanged.
\<close>

theorem checkButton_click_frame:
  "length (tableBody (checkButton_click i p)) = length (tableBody p)
   \<and> (\<forall>j. j < length (tableBody p) \<and> j \<noteq> i
        \<longrightarrow> tableBody (checkButton_click i p) ! j = tableBody p ! j)
   \<and> (i < length (tableBody p)
        \<longrightarrow> tableBody (checkButton_click i p) ! i = toggleCheck (tableBody p ! i)
          \<and> (classList_contains (button_classList (tableBody (checkButton_click i p) ! i))
                (js ''unchecked'')
              \<longleftrightarrow> \<not> classList_contains (button_classList (tableBody p ! i)) (js ''unchecked''))
          \<and> (classList_contains (button_classList (tableBody (checkButton_click i p) ! i))
                (js ''checked'')
              \<longleftrightarrow> classList_contains (button_classList (tableBody p ! i)) (js ''unchecked''))
          \<and> (\<forall>t. t \<noteq> js ''unchecked'' \<and> t \<noteq> js ''checked''
                \<longrightarrow> (classList_contains (button_classList (tableBody (checkButton_click i p) ! i)) t
                      \<longleftrightarrow> classList_contains (button_classList (tableBody p ! i)) t))
          \<and> (classList_contains (button_classList (tableBody p ! i)) (js ''unchecked'')
              \<longrightarrow> button_text (tableBody (checkButton_click i p) ! i) = [0x2714]
                \<and> style_opacity (tableBody (checkButton_click i p) ! i) = js ''0.6'')
          \<and> (\<not> classList_contains (button_classList (tableBody p ! i)) (js ''unchecked'')
              \<longrightarrow> button_text (tableBody (checkButton_click i p) ! i) = [0x2610]
                \<and> style_opacity (tableBody (checkButton_click i p) ! i) = js ''1'')
          \<and> name_text (tableBody (checkButton_click i p) ! i) = name_text (tableBody p ! i)
          \<and> number_text (tableBody (checkButton_click i p) ! i) = number_text (tableBody p ! i)
          \<and> area_text (tableBody (checkButton_click i p) ! i) = area_text (tableBody p ! i)
          \<and> name_label (tableBody (checkButton_click i p) ! i) = name_label (tableBody p ! i)
          \<and> number_label (tableBody (checkButton_click i p) ! i) = number_label (tableBody p ! i)
          \<and> area_label (tableBody (checkButton_click i p) ! i) = area_label (tableBody p ! i)
          \<and> done_label (tableBody (checkButton_click i p) ! i) = done_label (tableBody p ! i))
   \<and> nameInput (checkButton_click i p) = nameInput p
   \<and> numberInput (checkButton_click i p) = numberInput p
   \<and> areaInput (checkButton_click i p) = areaInput p
   \<and> rowCountSpan (checkButton_click i p) = rowCountSpan p
   \<and> limitMessage (checkButton_click i p) = limitMessage p
   \<and> addRowButton_disabled (checkButton_click i p) = addRowButton_disabled p
   \<and> addRowButton_text (checkButton_click i p) = addRowButton_text p"
proof -
  let ?r = "tableBody p ! i"
  have others: "\<forall>j. j < length (tableBody p) \<and> j \<noteq> i
        \<longrightarrow> tableBody (checkButton_click i p) ! j = tableBody p ! j"
    by (simp add: checkButton_click_other)
  have target: "tableBody (checkButton_click i p) ! i = toggleCheck ?r"
    if "i < length (tableBody p)"
    using that by (rule checkButton_click_target)
  have checked: "classList_contains (button_classList (toggleCheck ?r)) (js ''checked'')
      \<longleftrightarrow> classList_contains (button_classList ?r) (js ''unchecked'')"
    using toggleCheck_unchecked(3) [of ?r] toggleCheck_not_unchecked(4) [of ?r]
    by blast
  have tokens: "\<forall>t. t \<noteq> js ''unchecked'' \<and> t \<noteq> js ''checked''
      \<longrightarrow> (classList_contains (button_classList (toggleCheck ?r)) t
            \<longleftrightarrow> classList_contains (button_classList ?r) t)"
    by (simp add: toggleCheck_other_tokens)
  have glyph: "classList_contains (button_classList ?r) (js ''unchecked'')
      \<longrightarrow> button_text (toggleCheck ?r) = [0x2714]
        \<and> style_opacity (toggleCheck ?r) = js ''0.6''"
    by (simp add: toggleCheck_unchecked)
  have opacity: "\<not> classList_contains (button_classList ?r) (js ''unchecked'')
      \<longrightarrow> button_text (toggleCheck ?r) = [0x2610]
        \<and> style_opacity (toggleCheck ?r) = js ''1''"
    by (simp add: toggleCheck_not_unchecked)
  have row: "i < length (tableBody p)
        \<longrightarrow> tableBody (checkButton_click i p) ! i = toggleCheck (tableBody p ! i)
          \<and> (classList_contains (button_classList (tableBody (checkButton_click i p) ! i))
                (js ''unchecked'')
              \<longleftrightarrow> \<not> classList_contains (button_classList (tableBody p ! i)) (js ''unchecked''))
          \<and> (classList_contains (button_classList (tableBody (checkButton_click i p) ! i))
                (js ''checked'')
              \<longleftrightarrow> classList_contains (button_classList (tableBody p ! i)) (js ''unchecked''))
          \<and> (\<forall>t. t \<noteq> js ''unchecked'' \<and> t \<noteq> js ''checked''
                \<longrightarrow> (classList_contains (button_classList (tableBody (checkButton_click i p) ! i)) t
                      \<longleftrightarrow> classList_contains (button_classList (tableBody p ! i)) t))
          \<and> (classList_contains (button_classList (tableBody p ! i)) (js ''unchecked'')
              \<longrightarrow> button_text (tableBody (checkButton_click i p) ! i) = [0x2714]
                \<and> style_opacity (tableBody (checkButton_click i p) ! i) = js ''0.6'')
          \<and> (\<not> classList_contains (button_classList (tableBody p ! i)) (js ''unchecked'')
              \<longrightarrow> button_text (tableBody (checkButton_click i p) ! i) = [0x2610]
                \<and> style_opacity (tableBody (checkButton_click i p) ! i) = js ''1'')
          \<and> name_text (tableBody (checkButton_click i p) ! i) = name_text (tableBody p ! i)
          \<and> number_text (tableBody (checkButton_click i p) ! i) = number_text (tableBody p ! i)
          \<and> area_text (tableBody (checkButton_click i p) ! i) = area_text (tableBody p ! i)
          \<and> name_label (tableBody (checkButton_click i p) ! i) = name_label (tableBody p ! i)
          \<and> number_label (tableBody (checkButton_click i p) ! i) = number_label (tableBody p ! i)
          \<and> area_label (tableBody (checkButton_click i p) ! i) = area_label (tableBody p ! i)
          \<and> done_label (tableBody (checkButton_click i p) ! i) = done_label (tableBody p ! i)"
  proof
    assume "i < length (tableBody p)"
    then have eq: "tableBody (checkButton_click i p) ! i = toggleCheck ?r"
      by (rule target)
    show "tableBody (checkButton_click i p) ! i = toggleCheck (tableBody p ! i)
          \<and> (classList_contains (button_classList (tableBody (checkButton_click i p) ! i))
                (js ''unchecked'')
              \<longleftrightarrow> \<not> classList_contains (button_classList (tableBody p ! i)) (js ''unchecked''))
          \<and> (classList_contains (button_classList (tableBody (checkButton_click i p) ! i))
                (js ''checked'')
              \<longleftrightarrow> classList_contains (button_classList (tableBody p ! i)) (js ''unchecked''))
          \<and> (\<forall>t. t \<noteq> js ''unchecked'' \<and> t \<noteq> js ''checked''
                \<longrightarrow> (classList_contains (button_classList (tableBody (checkButton_click i p) ! i)) t
                      \<longleftrightarrow> classList_contains (button_classList (tableBody p ! i)) t))
          \<and> (classList_contains (button_classList (tableBody p ! i)) (js ''unchecked'')
              \<longrightarrow> button_text (tableBody (checkButton_click i p) ! i) = [0x2714]
                \<and> style_opacity (tableBody (checkButton_click i p) ! i) = js ''0.6'')
          \<and> (\<not> classList_contains (button_classList (tableBody p ! i)) (js ''unchecked'')
              \<longrightarrow> button_text (tableBody (checkButton_click i p) ! i) = [0x2610]
                \<and> style_opacity (tableBody (checkButton_click i p) ! i) = js ''1'')
          \<and> name_text (tableBody (checkButton_click i p) ! i) = name_text (tableBody p ! i)
          \<and> number_text (tableBody (checkButton_click i p) ! i) = number_text (tableBody p ! i)
          \<and> area_text (tableBody (checkButton_click i p) ! i) = area_text (tableBody p ! i)
          \<and> name_label (tableBody (checkButton_click i p) ! i) = name_label (tableBody p ! i)
          \<and> number_label (tableBody (checkButton_click i p) ! i) = number_label (tableBody p ! i)
          \<and> area_label (tableBody (checkButton_click i p) ! i) = area_label (tableBody p ! i)
          \<and> done_label (tableBody (checkButton_click i p) ! i) = done_label (tableBody p ! i)"
      unfolding eq
      using checked tokens glyph opacity toggleCheck_flips [of ?r]
      by (simp only: toggleCheck_cells simp_thms)
  qed
  from others row show ?thesis
    by (simp only: checkButton_click_fields simp_thms)
qed

theorem checkButton_click_frame_witness:
  "(0::nat) < length (tableBody two_row_page) \<and> (1::nat) < length (tableBody two_row_page)
   \<and> length (tableBody (checkButton_click 0 two_row_page)) = 2
   \<and> tableBody (checkButton_click 0 two_row_page) ! 1 = tableBody two_row_page ! 1
   \<and> tableBody (checkButton_click 0 two_row_page) ! 0 = toggleCheck (tableBody two_row_page ! 0)
   \<and> button_text (tableBody (checkButton_click 0 two_row_page) ! 0) = [0x2714]
   \<and> style_opacity (tableBody (checkButton_click 0 two_row_page) ! 0) = js ''0.6''
   \<and> button_text (tableBody (checkButton_click 1 two_row_page) ! 1) = [0x2610]
   \<and> style_opacity (tableBody (checkButton_click 1 two_row_page) ! 1) = js ''1''
   \<and> tableBody (checkButton_click 1 two_row_page) ! 0 = tableBody two_row_page ! 0
   \<and> number_text (tableBody (checkButton_click 0 two_row_page) ! 0) = js ''(123) 456-7890''
   \<and> nameInput (checkButton_click 0 two_row_page) = []"
proof -
  have len: "length (tableBody two_row_page) = 2"
    by (simp add: page_defs)
  have cell: "number_text (tableBody two_row_page ! 0) = js ''(123) 456-7890''"
    and draft: "nameInput two_row_page = []"
    by (simp_all add: page_defs createNewRow_def)
  have first: "classList_contains (button_classList (tableBody two_row_page ! 0)) (js ''unchecked'')"
    by (simp add: page_defs toggleCheck_fresh_classes)
  have second:
    "\<not> classList_contains (button_classList (tableBody two_row_page ! 1)) (js ''unchecked'')"
    by (simp add: page_defs toggleCheck_fresh_classes)
  have in0: "0 < length (tableBody two_row_page)" and in1: "1 < length (tableBody two_row_page)"
    by (simp_all add: len)
  note frame0 = checkButton_click_frame [of 0 two_row_page]
  note frame1 = checkButton_click_frame [of 1 two_row_page]
  from frame0 in1 have other0:
    "tableBody (checkButton_click 0 two_row_page) ! 1 = tableBody two_row_page ! 1"
    by auto
  from frame1 in0 have other1:
    "tableBody (checkButton_click 1 two_row_page) ! 0 = tableBody two_row_page ! 0"
    by auto
  from frame0 in0 first have row0:
    "tableBody (checkButton_click 0 two_row_page) ! 0 = toggleCheck (tableBody two_row_page ! 0)"
    "button_text (tableBody (checkButton_click 0 two_row_page) ! 0) = [0x2714]"
    "style_opacity (tableBody (checkButton_click 0 two_row_page) ! 0) = js ''0.6''"
    "number_text (tableBody (checkButton_click 0 two_row_page) ! 0) =
       number_text (tableBody two_row_page ! 0)"
    "length (tableBody (checkButton_click 0 two_row_page)) = length (tableBody two_row_page)"
    "nameInput (checkButton_click 0 two_row_page) = nameInput two_row_page"
    by blast+
  from frame1 in1 second have row1:
    "button_text (tableBody (checkButton_click 1 two_row_page) ! 1) = [0x2610]"
    "style_opacity (tableBody (checkButton_click 1 two_row_page) ! 1) = js ''1''"
    by blast+
  from len in0 in1 cell draft other0 other1 row0 row1 show ?thesis
    by (simp only: simp_thms)
qed

section \<open>The row limit\<close>

lemma handleAddRow_bound:
  "length (tableBody p) \<le> MAX_ROWS \<Longrightarrow> length (tableBody (snd (handleAddRow p))) \<le> MAX_ROWS"
  by (simp add: handleAddRow_rows)

lemma step_bound:
  "length (tableBody p) \<le> MAX_ROWS \<Longrightarrow> length (tableBody (step e p)) \<le> MAX_ROWS"
proof (cases e)
  case (Edit f v)
  assume "length (tableBody p) \<le> MAX_ROWS"
  with Edit show ?thesis by (cases f) simp_all
next
  case ClickAdd
  assume "length (tableBody p) \<le> MAX_ROWS"
  with ClickAdd show ?thesis by (simp add: addRowButton_click_def handleAddRow_bound)
next
  case (KeyPress f key)
  assume "length (tableBody p) \<le> MAX_ROWS"
  with KeyPress show ?thesis by (simp add: input_keypress_def handleAddRow_bound)
next
  case (ClickCheck i)
  assume "length (tableBody p) \<le> MAX_ROWS"
  with ClickCheck show ?thesis by (simp add: checkButton_click_fields)
qed

lemma run_bound:
  "length (tableBody p) \<le> MAX_ROWS \<Longrightarrow> length (tableBody (run evs p)) \<le> MAX_ROWS"
proof (induction evs arbitrary: p)
  case Nil
  then show ?case by (simp add: run_def)
next
  case (Cons e evs)
  from Cons.prems have "length (tableBody (step e p)) \<le> MAX_ROWS"
    by (rule step_bound)
  then have "length (tableBody (run evs (step e p))) \<le> MAX_ROWS"
    by (rule Cons.IH)
  then show ?case by (simp add: run_def)
qed

lemma run_append: "run (xs @ ys) p = run ys (run xs p)"
  by (simp add: run_def)

text \<open>The add button is disabled at capacity only, from the first \<open>updateRowCount\<close> on.\<close>

lemma updateRowCount_disabled:
  "addRowButton_disabled (updateRowCount p) \<longleftrightarrow> MAX_ROWS \<le> length (tableBody p)"
  by (simp add: updateRowCount_def Let_def)

lemma updateRowCount_establishes: "disabled_only_at_capacity (updateRowCount q)"
  by (simp add: disabled_only_at_capacity_def updateRowCount_disabled)

lemma handleAddRow_preserves:
  "disabled_only_at_capacity p \<Longrightarrow> disabled_only_at_capacity (snd (handleAddRow p))"
  by (simp add: handleAddRow_def Let_def updateRowCount_establishes)

lemma step_preserves:
  "disabled_only_at_capacity p \<Longrightarrow> disabled_only_at_capacity (step e p)"
proof (cases e)
  case (Edit f v)
  assume "disabled_only_at_capacity p"
  with Edit show ?thesis by (cases f) (simp_all add: disabled_only_at_capacity_def)
next
  case ClickAdd
  assume "disabled_only_at_capacity p"
  with ClickAdd show ?thesis by (simp add: addRowButton_click_def handleAddRow_preserves)
next
  case (KeyPress f key)
  assume "disabled_only_at_capacity p"
  with KeyPress show ?thesis by (simp add: input_keypress_def handleAddRow_preserves)
next
  case (ClickCheck i)
  assume "disabled_only_at_capacity p"
  with ClickCheck show ?thesis
    by (simp add: disabled_only_at_capacity_def checkButton_click_fields)
qed

lemma run_preserves:
  "disabled_only_at_capacity p \<Longrightarrow> disabled_only_at_capacity (run evs p)"
proof (induction evs arbitrary: p)
  case Nil
  then show ?case by (simp add: run_def)
next
  case (Cons e evs)
  from Cons.prems have "disabled_only_at_capacity (step e p)"
    by (rule step_preserves)
  then have "disabled_only_at_capacity (run evs (step e p))"
    by (rule Cons.IH)
  then show ?case by (simp add: run_def)
qed

text \<open>What one submission attempt does to the rows, by either trigger.\<close>

lemma run_enter_submission:
  "run (enter_submission (name, number, area)) p =
     snd (handleAddRow (p\<lparr>nameInput := name, numberInput := number, areaInput := area\<rparr>))"
  by (simp add: run_def enter_submission_def input_keypress_def)

lemma run_submission:
  "run (submission (name, number, area)) p =
     (if addRowButton_disabled p
      then p\<lparr>nameInput := name, numberInput := number, areaInput := area\<rparr>
      else snd (handleAddRow (p\<lparr>nameInput := name, numberInput := number, areaInput := area\<rparr>)))"
  by (simp add: run_def submission_def addRowButton_click_def)

lemma run_enter_submission_rows:
  "tableBody (run (enter_submission d) p) =
     (if valid_input d \<and> length (tableBody p) < MAX_ROWS
      then tableBody p @
           [createNewRow (trim (fst d)) (trim (fst (snd d))) (trim (snd (snd d)))]
      else tableBody p)"
  by (cases d) (simp add: run_enter_submission handleAddRow_rows valid_input_def)

lemma run_submission_rows:
  "tableBody (run (submission d) p) =
     (if \<not> addRowButton_disabled p \<and> valid_input d \<and> length (tableBody p) < MAX_ROWS
      then tableBody p @
           [createNewRow (trim (fst d)) (trim (fst (snd d))) (trim (snd (snd d)))]
      else tableBody p)"
  by (cases d) (simp add: run_submission handleAddRow_rows valid_input_def)

lemma run_enter_submissions_count:
  "list_all valid_input ds \<Longrightarrow> length (tableBody p) \<le> MAX_ROWS \<Longrightarrow>
   length (tableBody (run (concat (map enter_submission ds)) p)) =
     min (length (tableBody p) + length ds) MAX_ROWS"
proof (induction ds arbitrary: p)
  case Nil
  then show ?case by (simp add: run_def)
next
  case (Cons d ds)
  let ?q = "run (enter_submission d) p"
  from Cons.prems have valid: "valid_input d" and rest: "list_all valid_input ds"
    by simp_all
  have len: "length (tableBody ?q) =
      (if length (tableBody p) < MAX_ROWS then length (tableBody p) + 1 else length (tableBody p))"
    using valid by (simp add: run_enter_submission_rows)
  with Cons.prems have "length (tableBody ?q) \<le> MAX_ROWS"
    by simp
  with rest have "length (tableBody (run (concat (map enter_submission ds)) ?q)) =
      min (length (tableBody ?q) + length ds) MAX_ROWS"
    by (rule Cons.IH)
  with len Cons.prems(2) show ?case
    by (simp add: run_append)
qed

lemma run_submissions_count:
  "list_all valid_input ds \<Longrightarrow> length (tableBody p) \<le> MAX_ROWS \<Longrightarrow>
   disabled_only_at_capacity p \<Longrightarrow>
   length (tableBody (run (concat (map submission ds)) p)) =
     min (length (tableBody p) + length ds) MAX_ROWS"
proof (induction ds arbitrary: p)
  case Nil
  then show ?case by (simp add: run_def)
next
  case (Cons d ds)
  let ?q = "run (submission d) p"
  from Cons.prems have valid: "valid_input d" and rest: "list_all valid_input ds"
    by simp_all
  from Cons.prems(3) have enabled: "\<not> addRowButton_disabled p"
    if "length (tableBody p) < MAX_ROWS"
    using that by (auto simp: disabled_only_at_capacity_def)
  have len: "length (tableBody ?q) =
      (if length (tableBody p) < MAX_ROWS then length (tableBody p) + 1 else length (tableBody p))"
    using valid enabled by (simp add: run_submission_rows)
  with Cons.prems have bound: "length (tableBody ?q) \<le> MAX_ROWS"
    by simp
  from Cons.prems(3) have "disabled_only_at_capacity ?q"
    by (rule run_preserves)
  with rest bound have "length (tableBody (run (concat (map submission ds)) ?q)) =
      min (length (tableBody ?q) + length ds) MAX_ROWS"
    by (rule Cons.IH)
  with len Cons.prems(2) show ?case
    by (simp add: run_append)
qed

text \<open>
  C2. From a table of at most 160 rows, no sequence of events takes the row count above
  160; \<open>handleAddRow\<close> changes the rows only when there are fewer than 160; a run of valid
  submissions adds one row each until the table holds 160 and none after, so the 161st adds
  no row, whether the submissions are made with the \<open>Enter\<close> key or, on a page whose add
  button is disabled at capacity only, with the add button; and at 160 rows a submission by
  either trigger leaves the rows as they are.
\<close>

theorem row_count_never_exceeds_MAX_ROWS:
  assumes "length (tableBody p) \<le> MAX_ROWS"
  shows "length (tableBody (run evs p)) \<le> MAX_ROWS
     \<and> (tableBody (snd (handleAddRow p)) \<noteq> tableBody p \<longrightarrow> length (tableBody p) < MAX_ROWS)
     \<and> (list_all valid_input ds \<longrightarrow>
          length (tableBody (run (concat (map enter_submission ds)) p)) =
            min (length (tableBody p) + length ds) MAX_ROWS)
     \<and> (list_all valid_input ds \<and> disabled_only_at_capacity p \<longrightarrow>
          length (tableBody (run (concat (map submission ds)) p)) =
            min (length (tableBody p) + length ds) MAX_ROWS)
     \<and> (length (tableBody p) = MAX_ROWS \<longrightarrow>
          tableBody (run (submission d) p) = tableBody p
          \<and> tableBody (run (enter_submission d) p) = tableBody p)"
proof (intro conjI impI)
  from assms show "length (tableBody (run evs p)) \<le> MAX_ROWS"
    by (rule run_bound)
next
  assume "tableBody (snd (handleAddRow p)) \<noteq> tableBody p"
  then show "length (tableBody p) < MAX_ROWS"
    by (simp add: handleAddRow_rows split: if_splits)
next
  assume "list_all valid_input ds"
  then show "length (tableBody (run (concat (map enter_submission ds)) p)) =
      min (length (tableBody p) + length ds) MAX_ROWS"
    using assms by (rule run_enter_submissions_count)
next
  assume "list_all valid_input ds \<and> disabled_only_at_capacity p"
  then show "length (tableBody (run (concat (map submission ds)) p)) =
      min (length (tableBody p) + length ds) MAX_ROWS"
    using assms by (simp add: run_submissions_count)
next
  assume "length (tableBody p) = MAX_ROWS"
  then show "tableBody (run (submission d) p) = tableBody p"
    by (simp add: run_submission_rows)
next
  assume "length (tableBody p) = MAX_ROWS"
  then show "tableBody (run (enter_submission d) p) = tableBody p"
    by (simp add: run_enter_submission_rows)
qed

theorem row_count_never_exceeds_MAX_ROWS_witness:
  "length (tableBody (updateRowCount full_page)) \<le> MAX_ROWS
   \<and> length (tableBody (updateRowCount full_page)) = MAX_ROWS
   \<and> addRowButton_disabled (updateRowCount full_page)
   \<and> disabled_only_at_capacity (updateRowCount full_page)
   \<and> list_all valid_input [(js ''Dr. Rao'', js ''(123) 456-7890'', js ''Salt Lake'')]
   \<and> tableBody (run (submission (js ''Dr. Rao'', js ''(123) 456-7890'', js ''Salt Lake''))
        (updateRowCount full_page)) = tableBody (updateRowCount full_page)
   \<and> tableBody (run (enter_submission (js ''Dr. Rao'', js ''(123) 456-7890'', js ''Salt Lake''))
        (updateRowCount full_page)) = tableBody (updateRowCount full_page)
   \<and> length (tableBody (run (concat (map enter_submission
         [(js ''Dr. Rao'', js ''(123) 456-7890'', js ''Salt Lake'')]))
        (updateRowCount full_page))) = 160
   \<and> length (tableBody (run [KeyPress NameField (js ''Enter''), ClickAdd]
        (updateRowCount full_page))) \<le> MAX_ROWS
   \<and> length (tableBody blank_page) \<le> MAX_ROWS
   \<and> disabled_only_at_capacity blank_page
   \<and> length (tableBody (run (concat (map submission
         [(js ''Dr. Rao'', js ''(123) 456-7890'', js ''Salt Lake'')])) blank_page)) = 1
   \<and> length (tableBody (run (concat (map enter_submission
         [(js ''Dr. Rao'', js ''(123) 456-7890'', js ''Salt Lake'')])) blank_page)) = 1"
proof -
  let ?d = "(js ''Dr. Rao'', js ''(123) 456-7890'', js ''Salt Lake'')"
  let ?full = "updateRowCount full_page"
  have len: "length (tableBody ?full) = MAX_ROWS"
    by (simp add: page_defs MAX_ROWS_def)
  then have le: "length (tableBody ?full) \<le> MAX_ROWS"
    by simp
  have disabled: "addRowButton_disabled ?full"
    by (simp add: updateRowCount_disabled page_defs MAX_ROWS_def)
  have inv: "disabled_only_at_capacity ?full"
    by (rule updateRowCount_establishes)
  have "valid_input ?d"
    by (simp add: valid_input_def trim_examples valid_examples) (simp add: js_def)
  then have valid: "list_all valid_input [?d]"
    by simp
  have len0: "length (tableBody blank_page) = 0"
    and inv0: "disabled_only_at_capacity blank_page"
    by (simp_all add: page_defs disabled_only_at_capacity_def)
  then have le0: "length (tableBody blank_page) \<le> MAX_ROWS"
    by simp
  note full = row_count_never_exceeds_MAX_ROWS
    [OF le, of "[KeyPress NameField (js ''Enter''), ClickAdd]" "[?d]" ?d]
  note blank = row_count_never_exceeds_MAX_ROWS [OF le0, of "[]" "[?d]" ?d]
  from full len have same:
    "tableBody (run (submission ?d) ?full) = tableBody ?full"
    "tableBody (run (enter_submission ?d) ?full) = tableBody ?full"
    by blast+
  from full valid have "length (tableBody (run (concat (map enter_submission [?d])) ?full)) =
      min (length (tableBody ?full) + length [?d]) MAX_ROWS"
    by blast
  with len have count: "length (tableBody (run (concat (map enter_submission [?d])) ?full)) = 160"
    by (simp add: MAX_ROWS_def)
  from full have bound:
    "length (tableBody (run [KeyPress NameField (js ''Enter''), ClickAdd] ?full)) \<le> MAX_ROWS"
    by blast
  from blank valid inv0 have "length (tableBody (run (concat (map submission [?d])) blank_page)) =
      min (length (tableBody blank_page) + length [?d]) MAX_ROWS"
    by blast
  with len0 have count0: "length (tableBody (run (concat (map submission [?d])) blank_page)) = 1"
    by (simp add: MAX_ROWS_def)
  from blank valid have "length (tableBody (run (concat (map enter_submission [?d])) blank_page)) =
      min (length (tableBody blank_page) + length [?d]) MAX_ROWS"
    by blast
  with len0 have count1:
    "length (tableBody (run (concat (map enter_submission [?d])) blank_page)) = 1"
    by (simp add: MAX_ROWS_def)
  from len le disabled inv valid same count bound le0 inv0 count0 count1 show ?thesis
    by blast
qed

section \<open>The two triggers of a submission\<close>







end
